theory Spec2Isabelle
  imports Complex_Main "HOL-Library.Sublist"
begin

section \<open>Python values used by \<open>hume_processor.py\<close>\<close>

text \<open>
  A Python \<open>str\<close> is a sequence of code points, and \<open>s[:30]\<close> counts code points, so a
  string is a list of code points here. \<open>lit\<close> turns an ASCII literal into such a list.
  A Python \<open>float\<close> is modelled by an exact rational: comparisons, \<open>max\<close>, \<open>+\<close> and
  \<open>-\<close> are those of the rationals, and \<open>round\<close> and the \<open>.Nf\<close> format round half to
  even on the exact value, as CPython does on the exact value of the float. The
  representation error of binary floating point is outside the model.
\<close>

type_synonym pystr = "nat list"

definition lit :: "string \<Rightarrow> pystr" where
  "lit s = map of_char s"

datatype py_error = IndexError | KeyError

definition bnd :: "py_error + 'a \<Rightarrow> ('a \<Rightarrow> py_error + 'b) \<Rightarrow> py_error + 'b" where
  "bnd m f = (case m of Inl e \<Rightarrow> Inl e | Inr x \<Rightarrow> f x)"

text \<open>
  The position that an index \<open>i\<close> denotes in a sequence of \<open>len\<close> elements: a negative
  index counts from the end, and there is none when \<open>i\<close> is out of range.
\<close>

definition resolve_index :: "nat \<Rightarrow> int \<Rightarrow> nat option" where
  "resolve_index len i =
     (if 0 \<le> i \<and> i < int len then Some (nat i)
      else if i < 0 \<and> - int len \<le> i then Some (nat (int len + i))
      else None)"

text \<open>\<open>xs[i]\<close> and \<open>xs[i] = v\<close>; both raise when the index is out of range.\<close>

definition py_index :: "'a list \<Rightarrow> int \<Rightarrow> py_error + 'a" where
  "py_index xs i =
     (case resolve_index (length xs) i of
        None \<Rightarrow> Inl IndexError
      | Some j \<Rightarrow> Inr (xs ! j))"

definition py_setitem :: "'a list \<Rightarrow> int \<Rightarrow> 'a \<Rightarrow> py_error + 'a list" where
  "py_setitem xs i v =
     (case resolve_index (length xs) i of
        None \<Rightarrow> Inl IndexError
      | Some j \<Rightarrow> Inr (xs[j := v]))"

text \<open>\<open>d[k]\<close> on a dictionary whose key \<open>k\<close> may be absent.\<close>

definition py_item :: "'a option \<Rightarrow> py_error + 'a" where
  "py_item v = (case v of None \<Rightarrow> Inl KeyError | Some x \<Rightarrow> Inr x)"

text \<open>\<open>d.get(k, default)\<close>.\<close>

definition py_get :: "'a option \<Rightarrow> 'a \<Rightarrow> 'a" where
  "py_get v dflt = (case v of None \<Rightarrow> dflt | Some x \<Rightarrow> x)"

text \<open>\<open>xs[:n]\<close> for an integer \<open>n\<close> of either sign.\<close>

definition slice_to :: "'a list \<Rightarrow> int \<Rightarrow> 'a list" where
  "slice_to xs n =
     (if 0 \<le> n then take (nat n) xs else take (length xs - nat (- n)) xs)"

text \<open>A loop whose body may raise: the first error ends it.\<close>

fun fold_err :: "('b \<Rightarrow> 'a \<Rightarrow> py_error + 'b) \<Rightarrow> 'a list \<Rightarrow> 'b \<Rightarrow> py_error + 'b" where
  "fold_err f [] acc = Inr acc"
| "fold_err f (x # xs) acc =
     (case f acc x of Inl e \<Rightarrow> Inl e | Inr acc' \<Rightarrow> fold_err f xs acc')"

text \<open>\<open>sep.join(parts)\<close>.\<close>

fun join :: "pystr \<Rightarrow> pystr list \<Rightarrow> pystr" where
  "join sep [] = []"
| "join sep [x] = x"
| "join sep (x # y # ys) = x @ sep @ join sep (y # ys)"

text \<open>Rounding half to even, to an integer and to \<open>nd\<close> decimals (\<open>round(x, nd)\<close>).\<close>

definition round_half_even :: "rat \<Rightarrow> int" where
  "round_half_even y =
     (let f = \<lfloor>y\<rfloor>; d = y - of_int f
      in if d < 1 / 2 then f else if 1 / 2 < d then f + 1
         else if even f then f else f + 1)"

definition py_round :: "rat \<Rightarrow> nat \<Rightarrow> rat" where
  "py_round x nd = of_int (round_half_even (x * 10 ^ nd)) / 10 ^ nd"

text \<open>Decimal digits of a natural number, and the format specification \<open>.Nf\<close>.\<close>

fun digits :: "nat \<Rightarrow> pystr" where
  "digits n = (if n < 10 then [48 + n] else digits (n div 10) @ [48 + n mod 10])"

declare digits.simps [simp del]

definition format_f :: "nat \<Rightarrow> rat \<Rightarrow> pystr" where
  "format_f nd x =
     (let n = nat (round_half_even (\<bar>x\<bar> * 10 ^ nd));
          ip = n div 10 ^ nd;
          fp = digits (n mod 10 ^ nd)
      in (if x < 0 then lit ''-'' else []) @ digits ip @
         (if nd = 0 then [] else lit ''.'' @ replicate (nd - length fp) 48 @ fp))"

section \<open>The input record\<close>

text \<open>
  The Hume document is a dictionary of dictionaries in which every key may be absent; an
  absent key is \<open>None\<close>. The fields are named after the keys.
\<close>

record emotion_score =
  em_name :: "pystr option"
  em_score :: "rat option"

record time_range =
  t_begin :: "rat option"

record segment =
  seg_time :: "time_range option"
  seg_text :: "pystr option"
  seg_dominant_emotion :: "emotion_score option"

record channel =
  segments :: "segment list option"

record hume_data =
  speech_prosody :: "channel option"
  vocal_burst :: "channel option"
  language :: "channel option"

definition empty_emotion :: emotion_score where
  "empty_emotion = \<lparr>em_name = None, em_score = None\<rparr>"

definition empty_time :: time_range where
  "empty_time = \<lparr>t_begin = None\<rparr>"

definition empty_channel :: channel where
  "empty_channel = \<lparr>segments = None\<rparr>"

text \<open>\<open>segment.get('dominant_emotion', {})\<close> and \<open>segment.get('time', {}).get('begin', 0)\<close>.\<close>

definition dominant_of :: "segment \<Rightarrow> emotion_score" where
  "dominant_of seg = py_get (seg_dominant_emotion seg) empty_emotion"

definition begin_of :: "segment \<Rightarrow> rat" where
  "begin_of seg = py_get (t_begin (py_get (seg_time seg) empty_time)) 0"

section \<open>Derived values\<close>

record peak =
  p_time :: rat
  p_emotion :: pystr
  p_score :: rat
  p_text_snippet :: pystr

record transition =
  tr_time :: rat
  from_emotion :: pystr
  to_emotion :: pystr
  intensity :: rat

record moment =
  m_time :: pystr
  m_event :: pystr

record summary =
  overall_mood :: "pystr option"
  mood_confidence :: "rat option"
  emotional_peaks :: "peak list option"
  emotional_transitions :: "transition list option"
  key_moments :: "moment list option"
  emotional_arc :: "pystr option"

definition empty_summary :: summary where
  "empty_summary = \<lparr>overall_mood = None, mood_confidence = None, emotional_peaks = None,
     emotional_transitions = None, key_moments = None, emotional_arc = None\<rparr>"

record kwargs =
  kw_threshold :: "rat option"
  kw_top_n :: "int option"
  kw_change_threshold :: "rat option"

type_synonym candidate = "rat \<times> rat \<times> pystr"

section \<open>\<open>extract_emotional_peaks\<close>\<close>

definition prosody_peak :: "segment \<Rightarrow> peak" where
  "prosody_peak seg =
     (let dominant = dominant_of seg
      in \<lparr>p_time = begin_of seg,
          p_emotion = py_get (em_name dominant) (lit ''Unknown''),
          p_score = py_round (py_get (em_score dominant) 0) 2,
          p_text_snippet = take 30 (py_get (seg_text seg) []) @ lit ''...''\<rparr>)"

definition burst_peak :: "segment \<Rightarrow> peak" where
  "burst_peak burst =
     (let dominant = dominant_of burst
      in \<lparr>p_time = begin_of burst,
          p_emotion = lit ''VocalBurst:'' @ py_get (em_name dominant) (lit ''Unknown''),
          p_score = py_round (py_get (em_score dominant) 0) 2,
          p_text_snippet = lit ''[Non-verbal expression]''\<rparr>)"

definition significant :: "rat \<Rightarrow> segment \<Rightarrow> bool" where
  "significant threshold seg = (threshold \<le> py_get (em_score (dominant_of seg)) 0)"

text \<open>The list \<open>peaks\<close> after the two loops, before it is sorted.\<close>

definition collected_peaks :: "hume_data \<Rightarrow> rat \<Rightarrow> peak list" where
  "collected_peaks data threshold =
     (let prosody = py_get (speech_prosody data) empty_channel;
          segs = py_get (segments prosody) [];
          peaks = map prosody_peak (filter (significant threshold) segs);
          vocal_bursts = py_get (vocal_burst data) empty_channel;
          peaks = peaks @ map burst_peak
                    (filter (significant threshold) (py_get (segments vocal_bursts) []))
      in peaks)"

text \<open>
  \<open>peaks.sort(key=..., reverse=True)\<close> is a stable sort into descending order: peaks of
  equal score stay in the order in which they were appended. That is the stable ascending
  sort on the negated key.
\<close>

definition extract_emotional_peaks :: "hume_data \<Rightarrow> int \<Rightarrow> rat \<Rightarrow> peak list" where
  "extract_emotional_peaks data top_n threshold =
     (let peaks = collected_peaks data threshold;
          peaks = sort_key (\<lambda>x. - p_score x) peaks
      in slice_to peaks top_n)"

section \<open>\<open>detect_emotional_transitions\<close>\<close>

text \<open>The body of the loop over \<open>i\<close>, with the list built so far.\<close>

definition transition_step ::
  "rat \<Rightarrow> segment list \<Rightarrow> transition list \<Rightarrow> nat \<Rightarrow> py_error + transition list" where
  "transition_step change_threshold segs transitions i =
     bnd (py_index segs (int i - 1)) (\<lambda>prev_seg.
     bnd (py_index segs (int i)) (\<lambda>curr_seg.
       let prev_emotion = dominant_of prev_seg;
           curr_emotion = dominant_of curr_seg
       in if em_name prev_emotion \<noteq> em_name curr_emotion
          then (if change_threshold \<le> py_get (em_score curr_emotion) 0
                then Inr (transitions @
                  [\<lparr>tr_time = begin_of curr_seg,
                    from_emotion = py_get (em_name prev_emotion) (lit ''Unknown''),
                    to_emotion = py_get (em_name curr_emotion) (lit ''Unknown''),
                    intensity = py_round (py_get (em_score curr_emotion) 0) 2\<rparr>])
                else Inr transitions)
          else Inr transitions))"

definition detect_emotional_transitions ::
  "hume_data \<Rightarrow> rat \<Rightarrow> py_error + transition list" where
  "detect_emotional_transitions data change_threshold =
     (let prosody = py_get (speech_prosody data) empty_channel;
          segs = py_get (segments prosody) []
      in fold_err (transition_step change_threshold segs) [1 ..< length segs] [])"

section \<open>\<open>create_emotional_summary\<close>\<close>

definition arrow :: pystr where
  "arrow = [32, 8594, 32]"

definition key_moment :: "peak \<Rightarrow> moment" where
  "key_moment pk =
     \<lparr>m_time = format_f 1 (p_time pk) @ lit ''s'',
      m_event = p_emotion pk @ lit '' ('' @ format_f 0 (p_score pk * 100) @ lit ''%)''\<rparr>"

definition arc_add :: "pystr \<Rightarrow> pystr list \<Rightarrow> pystr list" where
  "arc_add e arc_parts = (if e \<notin> set arc_parts then arc_parts @ [e] else arc_parts)"

definition truthy :: "'a list option \<Rightarrow> bool" where
  "truthy v = (case v of None \<Rightarrow> False | Some xs \<Rightarrow> xs \<noteq> [])"

definition mood_summary :: "hume_data \<Rightarrow> py_error + summary" where
  "mood_summary data =
     (let lang = py_get (language data) empty_channel
      in if truthy (segments lang)
         then bnd (py_item (segments lang)) (\<lambda>segs.
              bnd (py_index segs 0) (\<lambda>seg.
                let dominant_emotion = dominant_of seg
                in Inr (empty_summary
                     \<lparr>overall_mood := Some (py_get (em_name dominant_emotion) (lit ''Unknown'')),
                      mood_confidence :=
                        Some (py_round (py_get (em_score dominant_emotion) 0) 2)\<rparr>)))
         else Inr empty_summary)"

definition create_emotional_summary ::
  "hume_data \<Rightarrow> pystr \<Rightarrow> kwargs \<Rightarrow> py_error + summary" where
  "create_emotional_summary data strategy kw =
     bnd (mood_summary data) (\<lambda>summary.
       if strategy = lit ''peaks'' then
         (let threshold = py_get (kw_threshold kw) (3 / 10);
              top_n = py_get (kw_top_n kw) 5;
              peaks = extract_emotional_peaks data top_n threshold
          in Inr (summary\<lparr>emotional_peaks := Some peaks\<rparr>))
       else if strategy = lit ''transitions'' then
         (let change_threshold = py_get (kw_change_threshold kw) (2 / 10)
          in bnd (detect_emotional_transitions data change_threshold) (\<lambda>transitions.
               Inr (summary\<lparr>emotional_transitions := Some (take 5 transitions)\<rparr>)))
       else if strategy = lit ''full_summary'' then
         (let peaks = extract_emotional_peaks data 3 (35 / 100)
          in bnd (detect_emotional_transitions data (25 / 100)) (\<lambda>transitions.
               let summary = summary\<lparr>key_moments := Some (map key_moment (take 2 peaks))\<rparr>
               in if 0 < length transitions
                  then bnd (py_index transitions 0) (\<lambda>t0.
                    let arc_parts = arc_add (from_emotion t0) [];
                        arc_parts = fold (\<lambda>t. arc_add (to_emotion t)) (take 3 transitions) arc_parts
                    in Inr (summary\<lparr>emotional_arc := Some (join arrow arc_parts)\<rparr>))
                  else Inr summary))
       else Inr summary)"

section \<open>\<open>format_for_prompt\<close>\<close>

definition peak_str :: "peak \<Rightarrow> pystr" where
  "peak_str p = lit ''['' @ format_f 0 (p_time p) @ lit ''s: '' @ p_emotion p @ lit '' '' @
     format_f 0 (p_score p * 100) @ lit ''%]''"

definition moment_str :: "moment \<Rightarrow> pystr" where
  "moment_str m = m_event m @ lit '' at '' @ m_time m"

text \<open>The list \<open>lines\<close> at the end of the function, before it is joined.\<close>

definition format_lines :: "summary \<Rightarrow> pystr list" where
  "format_lines s =
     (let lines = [];
          lines = (case overall_mood s of
                     Some mood \<Rightarrow> lines @ [lit ''Overall mood: '' @ mood]
                   | None \<Rightarrow> lines);
          lines = (case emotional_peaks s of
                     Some peaks \<Rightarrow>
                       if peaks \<noteq> []
                       then lines @ [lit ''Peak moments: '' @
                              join (lit '', '') (map peak_str (take 3 peaks))]
                       else lines
                   | None \<Rightarrow> lines);
          lines = (case emotional_arc s of
                     Some arc \<Rightarrow> lines @ [lit ''Emotional journey: '' @ arc]
                   | None \<Rightarrow> lines);
          lines = (case key_moments s of
                     Some ms \<Rightarrow> lines @ [lit ''Key moments: '' @
                              join (lit '', '') (map moment_str (take 2 ms))]
                   | None \<Rightarrow> lines)
      in lines)"

definition format_for_prompt :: "summary \<Rightarrow> pystr" where
  "format_for_prompt s = join [10] (format_lines s)"

section \<open>\<open>identify_punchline_candidates\<close>\<close>

definition peak_reason :: "pystr \<Rightarrow> pystr" where
  "peak_reason emotion =
     (if emotion \<in> set [lit ''Amusement'', lit ''Joy'', lit ''Excitement'']
        then lit ''High humor/joy moment''
      else if emotion \<in> set [lit ''Sadness'', lit ''Empathic Pain'']
        then lit ''Emotional/touching moment''
      else if emotion \<in> set [lit ''Surprise (positive)'', lit ''Surprise (negative)'']
        then lit ''Unexpected twist''
      else if emotion \<in> set [lit ''Contemplation'', lit ''Realization'']
        then lit ''Insightful observation''
      else lit ''Strong '' @ emotion @ lit '' moment'')"

definition peak_candidate :: "rat \<Rightarrow> peak \<Rightarrow> candidate" where
  "peak_candidate time_window pk =
     (max 0 (p_time pk - time_window), p_time pk + time_window, peak_reason (p_emotion pk))"

definition burst_candidate :: "segment \<Rightarrow> candidate" where
  "burst_candidate burst =
     (let time = begin_of burst
      in (max 0 (time - 1), time + 1, lit ''Non-verbal expression''))"

text \<open>The body of the merge loop, with the list \<open>merged\<close> built so far.\<close>

definition merge_step :: "candidate list \<Rightarrow> candidate \<Rightarrow> py_error + candidate list" where
  "merge_step merged c =
     (case c of (start, en, reason) \<Rightarrow>
        if merged = [] then Inr (merged @ [(start, en, reason)])
        else bnd (py_index merged (- 1)) (\<lambda>lst.
          if start \<le> fst (snd lst)
          then py_setitem merged (- 1)
                 (fst lst, max en (fst (snd lst)), snd (snd lst) @ lit '' + '' @ reason)
          else Inr (merged @ [(start, en, reason)])))"

definition merge_windows :: "candidate list \<Rightarrow> py_error + candidate list" where
  "merge_windows candidates = fold_err merge_step candidates []"

definition identify_punchline_candidates ::
  "hume_data \<Rightarrow> rat \<Rightarrow> py_error + candidate list" where
  "identify_punchline_candidates data time_window =
     (let peaks = extract_emotional_peaks data 10 (25 / 100);
          candidates = map (peak_candidate time_window) peaks;
          vocal_bursts = py_get (vocal_burst data) empty_channel;
          candidates = candidates @ map burst_candidate (py_get (segments vocal_bursts) []);
          candidates = sort_key fst candidates
      in bnd (merge_windows candidates) (\<lambda>merged. Inr (take 7 merged)))"

section \<open>Notions used in the statements\<close>

text \<open>
  The two channels as the functions read them, and the score of a segment before it is
  rounded (\<open>dominant.get('score', 0)\<close>).
\<close>

definition prosody_segments :: "hume_data \<Rightarrow> segment list" where
  "prosody_segments data = py_get (segments (py_get (speech_prosody data) empty_channel)) []"

definition burst_segments :: "hume_data \<Rightarrow> segment list" where
  "burst_segments data = py_get (segments (py_get (vocal_burst data) empty_channel)) []"

definition raw_score :: "segment \<Rightarrow> rat" where
  "raw_score seg = py_get (em_score (dominant_of seg)) 0"

text \<open>Two merged windows are apart when the second starts after the first has ended.\<close>

definition apart :: "candidate \<Rightarrow> candidate \<Rightarrow> bool" where
  "apart a b = (fst (snd a) < fst b)"

text \<open>Sample documents, for evaluating the functions on concrete input.\<close>

definition mk_segment :: "rat \<Rightarrow> string \<Rightarrow> rat \<Rightarrow> segment" where
  "mk_segment t n s =
     \<lparr>seg_time = Some \<lparr>t_begin = Some t\<rparr>, seg_text = Some (lit ''so it goes''),
      seg_dominant_emotion = Some \<lparr>em_name = Some (lit n), em_score = Some s\<rparr>\<rparr>"

definition one_prosody :: "segment list \<Rightarrow> hume_data" where
  "one_prosody segs =
     \<lparr>speech_prosody = Some \<lparr>segments = Some segs\<rparr>, vocal_burst = None, language = None\<rparr>"

definition sample_data :: hume_data where
  "sample_data =
     \<lparr>speech_prosody = Some \<lparr>segments = Some
        [mk_segment 0 ''Joy'' (1 / 2), mk_segment 1 ''Joy'' (1 / 2),
         mk_segment 2 ''Sadness'' (4 / 10)]\<rparr>,
      vocal_burst = Some \<lparr>segments = Some [mk_segment 10 ''Laugh'' (1 / 2)]\<rparr>,
      language = Some \<lparr>segments = Some [mk_segment 0 ''Calm'' (777 / 1000)]\<rparr>\<rparr>"

text \<open>
  The test of the transition loop at index \<open>i\<close>: the names of the dominant emotions of
  segments \<open>i - 1\<close> and \<open>i\<close>, as \<open>.get('name')\<close> returns them, differ. An absent name
  differs from every name that is present.
\<close>

definition changes_at :: "segment list \<Rightarrow> nat \<Rightarrow> bool" where
  "changes_at segs i =
     (em_name (dominant_of (segs ! (i - 1))) \<noteq> em_name (dominant_of (segs ! i)))"

text \<open>
  The transition that the loop builds at index \<open>i\<close>, the condition under which it appends
  it, and the one way in which two names that differ as found give the same label: one
  of them is absent and the other is the literal \<open>Unknown\<close>.
\<close>

definition transition_at :: "segment list \<Rightarrow> nat \<Rightarrow> transition" where
  "transition_at segs i =
     \<lparr>tr_time = begin_of (segs ! i),
      from_emotion = py_get (em_name (dominant_of (segs ! (i - 1)))) (lit ''Unknown''),
      to_emotion = py_get (em_name (dominant_of (segs ! i))) (lit ''Unknown''),
      intensity = py_round (raw_score (segs ! i)) 2\<rparr>"

definition emits_at :: "rat \<Rightarrow> segment list \<Rightarrow> nat \<Rightarrow> bool" where
  "emits_at th segs i = (changes_at segs i \<and> th \<le> raw_score (segs ! i))"

definition absent_beside_unknown :: "segment list \<Rightarrow> nat \<Rightarrow> bool" where
  "absent_beside_unknown segs i =
     (em_name (dominant_of (segs ! (i - 1))) = None \<and>
        em_name (dominant_of (segs ! i)) = Some (lit ''Unknown'') \<or>
      em_name (dominant_of (segs ! (i - 1))) = Some (lit ''Unknown'') \<and>
        em_name (dominant_of (segs ! i)) = None)"

text \<open>The language channel, and the summary that holds the overall mood alone.\<close>

definition language_segments :: "hume_data \<Rightarrow> segment list" where
  "language_segments data = py_get (segments (py_get (language data) empty_channel)) []"

definition mood_of :: "segment \<Rightarrow> summary" where
  "mood_of seg =
     \<lparr>overall_mood = Some (py_get (em_name (dominant_of seg)) (lit ''Unknown'')),
      mood_confidence = Some (py_round (raw_score seg) 2),
      emotional_peaks = None, emotional_transitions = None, key_moments = None,
      emotional_arc = None\<rparr>"

text \<open>
  A sequence without its repetitions, each element at its first occurrence: the head, then
  the rest without the head, treated the same way.
\<close>

fun dedup_first :: "'a list \<Rightarrow> 'a list" where
  "dedup_first [] = []"
| "dedup_first (x # xs) = x # dedup_first (filter (\<lambda>y. y \<noteq> x) xs)"

text \<open>A call without keyword arguments, a document without channels, a segment without fields.\<close>

definition no_keywords :: kwargs where
  "no_keywords = \<lparr>kw_threshold = None, kw_top_n = None, kw_change_threshold = None\<rparr>"

definition no_data :: hume_data where
  "no_data = \<lparr>speech_prosody = None, vocal_burst = None, language = None\<rparr>"

definition bare_segment :: segment where
  "bare_segment = \<lparr>seg_time = None, seg_text = None, seg_dominant_emotion = None\<rparr>"

text \<open>A window starts at a non-negative time and does not end before it starts.\<close>

definition well_formed :: "candidate \<Rightarrow> bool" where
  "well_formed c = (0 \<le> fst c \<and> fst c \<le> fst (snd c))"

text \<open>
  A conversation that goes back and forth between two emotions before a third, and one in
  which no score reaches \<open>0.35\<close>.
\<close>

definition arc_data :: hume_data where
  "arc_data = one_prosody
     [mk_segment 0 ''Joy'' (1 / 2), mk_segment 1 ''Sadness'' (1 / 2),
      mk_segment 2 ''Joy'' (1 / 2), mk_segment 3 ''Sadness'' (1 / 2),
      mk_segment 4 ''Anger'' (1 / 2)]"

definition quiet_data :: hume_data where
  "quiet_data =
     \<lparr>speech_prosody = Some \<lparr>segments = Some
        [mk_segment 0 ''Calm'' (2 / 10), mk_segment 1 ''Boredom'' (3 / 10)]\<rparr>,
      vocal_burst = Some \<lparr>segments = Some [mk_segment 5 ''Sigh'' (1 / 10)]\<rparr>,
      language = None\<rparr>"

section \<open>Basic facts\<close>

lemma bnd_Inr [simp]: "bnd (Inr x) f = f x"
  by (simp add: bnd_def)

lemma bnd_Inl [simp]: "bnd (Inl e) f = Inl e"
  by (simp add: bnd_def)

lemma py_index_nat: "i < length xs \<Longrightarrow> py_index xs (int i) = Inr (xs ! i)"
  by (simp add: py_index_def resolve_index_def)

lemma py_index_first: "xs \<noteq> [] \<Longrightarrow> py_index xs 0 = Inr (hd xs)"
  by (cases xs) (simp_all add: py_index_def resolve_index_def)

lemma py_index_last: "py_index (xs @ [x]) (- 1) = Inr x"
  by (simp add: py_index_def resolve_index_def)

lemma py_setitem_last: "py_setitem (xs @ [x]) (- 1) v = Inr (xs @ [v])"
  by (simp add: py_setitem_def resolve_index_def)

section \<open>The merge sweep\<close>

lemma merge_step_Nil: "merge_step [] c = Inr [c]"
  by (cases c) (simp add: merge_step_def)

lemma merge_step_snoc:
  "merge_step (ms @ [l]) (s, e, r) =
     Inr (if s \<le> fst (snd l)
          then ms @ [(fst l, max e (fst (snd l)), snd (snd l) @ lit '' + '' @ r)]
          else ms @ [l, (s, e, r)])"
  by (simp add: merge_step_def py_index_last py_setitem_last)

lemma merge_fold_apart:
  "successively apart acc \<Longrightarrow>
   \<exists>ys. fold_err merge_step xs acc = Inr ys \<and> successively apart ys"
proof (induction xs arbitrary: acc)
  case Nil
  then show ?case by simp
next
  case (Cons c xs)
  obtain s e r where c: "c = (s, e, r)" by (cases c)
  show ?case
  proof (cases acc rule: rev_cases)
    case Nil
    then show ?thesis using Cons.IH [of "[c]"] by (simp add: merge_step_Nil)
  next
    case (snoc ms l)
    show ?thesis
    proof (cases "s \<le> fst (snd l)")
      case True
      let ?l' = "(fst l, max e (fst (snd l)), snd (snd l) @ lit '' + '' @ r)"
      have "successively apart (ms @ [?l'])"
        using Cons.prems snoc by (cases ms rule: rev_cases) (auto simp: successively_append_iff apart_def)
      then show ?thesis using Cons.IH [of "ms @ [?l']"] True snoc c
        by (simp add: merge_step_snoc)
    next
      case False
      have "successively apart (ms @ [l, c])"
        using Cons.prems snoc False c by (auto simp: successively_append_iff apart_def)
      then show ?thesis using Cons.IH [of "ms @ [l, c]"] False snoc c
        by (simp add: merge_step_snoc)
    qed
  qed
qed

lemma merge_fold_fixed:
  "successively apart (acc @ ys) \<Longrightarrow> fold_err merge_step ys acc = Inr (acc @ ys)"
proof (induction ys arbitrary: acc)
  case Nil
  then show ?case by simp
next
  case (Cons c ys)
  obtain s e r where c: "c = (s, e, r)" by (cases c)
  have step: "merge_step acc c = Inr (acc @ [c])"
  proof (cases acc rule: rev_cases)
    case Nil
    then show ?thesis by (simp add: merge_step_Nil)
  next
    case (snoc ms l)
    then have "apart l c" using Cons.prems by (auto simp: successively_append_iff)
    then show ?thesis using snoc c by (simp add: merge_step_snoc apart_def)
  qed
  show ?case using Cons.IH [of "acc @ [c]"] Cons.prems step by simp
qed

text \<open>
  C5. The merge sweep is idempotent: the sweep returns a list on every input, and the sweep
  applied to that list returns it unchanged, so no start, end or reason changes on the
  second pass.
\<close>

theorem merge_windows_idempotent:
  "\<exists>merged. merge_windows candidates = Inr merged \<and> merge_windows merged = Inr merged"
proof -
  obtain ys where ys: "merge_windows candidates = Inr ys" "successively apart ys"
    using merge_fold_apart [of "[]" candidates] by (auto simp: merge_windows_def)
  have "merge_windows ys = Inr ys"
    using merge_fold_fixed [of "[]" ys] ys(2) by (simp add: merge_windows_def)
  with ys(1) show ?thesis by blast
qed

section \<open>Peak extraction\<close>

lemma collected_peaks_eq:
  "collected_peaks data t =
     map prosody_peak (filter (significant t) (prosody_segments data)) @
     map burst_peak (filter (significant t) (burst_segments data))"
  by (simp add: collected_peaks_def prosody_segments_def burst_segments_def)

lemma set_slice_to: "set (slice_to xs n) \<subseteq> set xs"
  by (auto simp: slice_to_def dest: in_set_takeD)

lemma set_extract_peaks:
  "set (extract_emotional_peaks data n t) \<subseteq> set (collected_peaks data t)"
  using set_slice_to [of "sort_key (\<lambda>x. - p_score x) (collected_peaks data t)" n]
  by (simp add: extract_emotional_peaks_def)

lemma round_half_even_ge_floor: "\<lfloor>y\<rfloor> \<le> round_half_even y"
  by (simp add: round_half_even_def Let_def)

lemma round_half_even_lower: "y - 1 / 2 \<le> of_int (round_half_even y)"
proof -
  have "y - of_int \<lfloor>y\<rfloor> < 1" by linarith
  then show ?thesis
    by (auto simp: round_half_even_def Let_def)
qed

lemma round_half_even_upper: "of_int (round_half_even y) \<le> y + 1 / 2"
proof -
  have "of_int \<lfloor>y\<rfloor> \<le> y" by simp
  then show ?thesis
    unfolding round_half_even_def Let_def by (simp; linarith)
qed

lemma py_round_2_lower: "x - 1 / 200 \<le> py_round x 2"
proof -
  have "x * 100 - 1 / 2 \<le> of_int (round_half_even (x * 100))"
    by (rule round_half_even_lower)
  then show ?thesis by (simp add: py_round_def field_simps)
qed

lemma py_round_2_grid:
  assumes "of_int k / 100 \<le> x"
  shows "of_int k / 100 \<le> py_round x 2"
proof -
  have "of_int k \<le> x * 100" using assms by (simp add: field_simps)
  then have "k \<le> \<lfloor>x * 100\<rfloor>" by (simp add: le_floor_iff)
  then have "k \<le> round_half_even (x * 100)"
    using round_half_even_ge_floor [of "x * 100"] by linarith
  then have "(of_int k :: rat) \<le> of_int (round_half_even (x * 100))" by simp
  then show ?thesis by (simp add: py_round_def field_simps)
qed

lemma collected_peak_source:
  assumes "p \<in> set (collected_peaks data t)"
  shows "\<exists>seg. (seg \<in> set (prosody_segments data) \<and> p = prosody_peak seg \<or>
               seg \<in> set (burst_segments data) \<and> p = burst_peak seg) \<and>
              t \<le> raw_score seg \<and> p_score p = py_round (raw_score seg) 2"
  using assms
  by (auto simp: collected_peaks_eq significant_def raw_score_def prosody_peak_def
      burst_peak_def Let_def)

text \<open>
  C1, as amended. Every peak returned by \<open>extract_emotional_peaks\<close> comes from a segment
  whose unrounded dominant-emotion score is at least the threshold \<open>t\<close>; the score the peak
  carries is that score rounded to two decimals, so it is at least \<open>t - 0.005\<close>, and at
  least \<open>t\<close> whenever \<open>t\<close> is a multiple of \<open>0.01\<close>. This holds for every \<open>top_n\<close>.
\<close>

theorem extract_peaks_score_bound:
  "\<forall>p \<in> set (extract_emotional_peaks data top_n t).
     (\<exists>seg. (seg \<in> set (prosody_segments data) \<and> p = prosody_peak seg \<or>
             seg \<in> set (burst_segments data) \<and> p = burst_peak seg) \<and>
            t \<le> raw_score seg \<and> p_score p = py_round (raw_score seg) 2) \<and>
     t - 1 / 200 \<le> p_score p \<and>
     (\<forall>k::int. t = of_int k / 100 \<longrightarrow> t \<le> p_score p)"
proof
  fix p assume "p \<in> set (extract_emotional_peaks data top_n t)"
  then have "p \<in> set (collected_peaks data t)" using set_extract_peaks by blast
  then obtain seg where seg:
    "seg \<in> set (prosody_segments data) \<and> p = prosody_peak seg \<or>
     seg \<in> set (burst_segments data) \<and> p = burst_peak seg"
    "t \<le> raw_score seg" "p_score p = py_round (raw_score seg) 2"
    using collected_peak_source by blast
  have "t - 1 / 200 \<le> p_score p"
    using py_round_2_lower [of "raw_score seg"] seg(2,3) by linarith
  moreover have "\<forall>k::int. t = of_int k / 100 \<longrightarrow> t \<le> p_score p"
  proof (intro allI impI)
    fix k :: int assume "t = of_int k / 100"
    then show "t \<le> p_score p"
      using py_round_2_grid [of k "raw_score seg"] seg(2,3) by simp
  qed
  ultimately show "(\<exists>seg. (seg \<in> set (prosody_segments data) \<and> p = prosody_peak seg \<or>
             seg \<in> set (burst_segments data) \<and> p = burst_peak seg) \<and>
            t \<le> raw_score seg \<and> p_score p = py_round (raw_score seg) 2) \<and>
     t - 1 / 200 \<le> p_score p \<and>
     (\<forall>k::int. t = of_int k / 100 \<longrightarrow> t \<le> p_score p)"
    using seg by blast
qed

theorem extract_peaks_score_bound_witness:
  "map p_score (extract_emotional_peaks sample_data 5 (35 / 100)) =
     [1 / 2, 1 / 2, 1 / 2, 4 / 10] \<and>
   list_all (\<lambda>p. 35 / 100 \<le> p_score p) (extract_emotional_peaks sample_data 5 (35 / 100))"
proof -
  have e: "map p_score (extract_emotional_peaks sample_data 5 (35 / 100)) =
     [1 / 2, 1 / 2, 1 / 2, 4 / 10]"
    by code_simp
  have g: "(35 / 100 :: rat) = of_int 35 / 100" by simp
  have "\<forall>p \<in> set (extract_emotional_peaks sample_data 5 (35 / 100)). 35 / 100 \<le> p_score p"
    using extract_peaks_score_bound [of sample_data 5 "35 / 100"] g by blast
  then show ?thesis using e by (simp add: list_all_iff)
qed

text \<open>
  C1 as stated fails: with threshold \<open>0.352\<close>, a segment of score \<open>0.354\<close> passes the
  comparison and its peak carries the rounded score \<open>0.35\<close>, below the threshold.
\<close>

theorem extract_peaks_threshold_counterexample:
  "map p_score (extract_emotional_peaks (one_prosody [mk_segment 0 ''Joy'' (354 / 1000)]) 5
     (352 / 1000)) = [35 / 100] \<and> (35 / 100 :: rat) < 352 / 1000"
  by code_simp

text \<open>
  C3. For \<open>top_n \<ge> 0\<close> the result of \<open>extract_emotional_peaks\<close> has at most \<open>top_n\<close>
  peaks and is sorted by descending score; peaks of equal score keep their emission order:
  for every score, the peaks of that score in the result are an initial part of the peaks
  of that score in the list collected before sorting, where the peaks of the prosody
  segments come before those of the vocal bursts, each channel in source order.
\<close>

theorem extract_peaks_sorted_stable:
  assumes "0 \<le> top_n"
  shows "int (length (extract_emotional_peaks data top_n t)) \<le> top_n \<and>
         sorted_wrt (\<lambda>a b. p_score b \<le> p_score a) (extract_emotional_peaks data top_n t) \<and>
         (\<forall>k. prefix (filter (\<lambda>p. p_score p = k) (extract_emotional_peaks data top_n t))
                     (filter (\<lambda>p. p_score p = k)
                        (map prosody_peak (filter (significant t) (prosody_segments data)) @
                         map burst_peak (filter (significant t) (burst_segments data)))))"
proof -
  let ?key = "\<lambda>x. - p_score x"
  let ?sorted = "sort_key ?key (collected_peaks data t)"
  have res: "extract_emotional_peaks data top_n t = take (nat top_n) ?sorted"
    using assms by (simp add: extract_emotional_peaks_def slice_to_def)
  have len: "int (length (take (nat top_n) ?sorted)) \<le> top_n"
    using assms by simp
  have "sorted (map ?key ?sorted)" by (rule sorted_sort_key)
  then have "sorted_wrt (\<lambda>a b. p_score b \<le> p_score a) ?sorted"
    by (simp add: sorted_map)
  then have ord: "sorted_wrt (\<lambda>a b. p_score b \<le> p_score a) (take (nat top_n) ?sorted)"
    by (rule sorted_wrt_take)
  have stable: "prefix (filter (\<lambda>p. p_score p = k) (take (nat top_n) ?sorted))
                  (filter (\<lambda>p. p_score p = k) (collected_peaks data t))" for k
  proof -
    have "filter (\<lambda>p. ?key p = - k) ?sorted = filter (\<lambda>p. ?key p = - k) (collected_peaks data t)"
      by (rule sort_key_stable)
    then have "filter (\<lambda>p. p_score p = k) ?sorted = filter (\<lambda>p. p_score p = k) (collected_peaks data t)"
      by simp
    moreover have "prefix (filter (\<lambda>p. p_score p = k) (take (nat top_n) ?sorted))
                     (filter (\<lambda>p. p_score p = k) ?sorted)"
      by (intro filter_mono_prefix take_is_prefix)
    ultimately show ?thesis by simp
  qed
  show ?thesis
    unfolding res collected_peaks_eq [symmetric] using len ord stable by blast
qed

theorem extract_peaks_sorted_stable_witness:
  "(0::int) \<le> 3 \<and>
   map (\<lambda>p. (p_time p, p_score p)) (extract_emotional_peaks sample_data 3 (3 / 10)) =
     [(0, 1 / 2), (1, 1 / 2), (10, 1 / 2)] \<and>
   int (length (extract_emotional_peaks sample_data 3 (3 / 10))) \<le> 3 \<and>
   sorted_wrt (\<lambda>a b. p_score b \<le> p_score a) (extract_emotional_peaks sample_data 3 (3 / 10))"
proof -
  have h: "(0::int) \<le> 3" by simp
  have e: "map (\<lambda>p. (p_time p, p_score p)) (extract_emotional_peaks sample_data 3 (3 / 10)) =
     [(0, 1 / 2), (1, 1 / 2), (10, 1 / 2)]"
    by code_simp
  show ?thesis using extract_peaks_sorted_stable [OF h, of sample_data "3 / 10"] h e by simp
qed

section \<open>Transition detection\<close>

lemma transition_step_in_range:
  assumes "1 \<le> i" "i < length segs"
  shows "\<exists>ys. transition_step th segs ts i = Inr ys \<and>
              (if changes_at segs i then length ys \<le> Suc (length ts) else ys = ts)"
proof -
  have a: "py_index segs (int i - 1) = Inr (segs ! (i - 1))"
    using assms py_index_nat [of "i - 1" segs] by (simp add: of_nat_diff)
  have b: "py_index segs (int i) = Inr (segs ! i)"
    using assms py_index_nat [of i segs] by simp
  show ?thesis
    by (simp add: transition_step_def a b changes_at_def Let_def)
qed

lemma transition_fold:
  assumes "\<forall>i \<in> set idx. 1 \<le> i \<and> i < length segs"
  shows "\<exists>ys. fold_err (transition_step th segs) idx ts = Inr ys \<and>
              length ys \<le> length ts + length (filter (changes_at segs) idx)"
  using assms
proof (induction idx arbitrary: ts)
  case Nil
  then show ?case by simp
next
  case (Cons i idx)
  then have "1 \<le> i" "i < length segs" by simp_all
  then obtain ys where ys: "transition_step th segs ts i = Inr ys"
      "if changes_at segs i then length ys \<le> Suc (length ts) else ys = ts"
    using transition_step_in_range by blast
  obtain zs where zs: "fold_err (transition_step th segs) idx ys = Inr zs"
      "length zs \<le> length ys + length (filter (changes_at segs) idx)"
    using Cons.IH [of ys] Cons.prems by auto
  show ?case using ys zs by (auto split: if_splits)
qed

lemma detect_transitions_eq:
  "detect_emotional_transitions data th =
     fold_err (transition_step th (prosody_segments data))
       [1 ..< length (prosody_segments data)] []"
  by (simp add: detect_emotional_transitions_def prosody_segments_def Let_def)

lemma detect_transitions_total:
  "\<exists>ts. detect_emotional_transitions data th = Inr ts \<and>
     length ts \<le> length (filter (changes_at (prosody_segments data))
                           [1 ..< length (prosody_segments data)])"
proof -
  have "\<forall>i \<in> set [1 ..< length (prosody_segments data)].
          1 \<le> i \<and> i < length (prosody_segments data)" by simp
  from transition_fold [OF this, of th "[]"] show ?thesis
    by (simp add: detect_transitions_eq)
qed

lemma transition_step_exact:
  assumes "1 \<le> i" "i < length segs"
  shows "transition_step th segs ts i =
           Inr (ts @ (if emits_at th segs i then [transition_at segs i] else []))"
proof -
  have a: "py_index segs (int i - 1) = Inr (segs ! (i - 1))"
    using assms py_index_nat [of "i - 1" segs] by (simp add: of_nat_diff)
  have b: "py_index segs (int i) = Inr (segs ! i)"
    using assms py_index_nat [of i segs] by simp
  show ?thesis
    by (simp add: transition_step_def a b changes_at_def emits_at_def transition_at_def
        raw_score_def Let_def)
qed

lemma transition_fold_exact:
  assumes "\<forall>i \<in> set idx. 1 \<le> i \<and> i < length segs"
  shows "fold_err (transition_step th segs) idx ts =
           Inr (ts @ map (transition_at segs) (filter (emits_at th segs) idx))"
  using assms
proof (induction idx arbitrary: ts)
  case Nil
  then show ?case by simp
next
  case (Cons i idx)
  then have r: "1 \<le> i" "i < length segs" by simp_all
  have rest: "\<forall>j \<in> set idx. 1 \<le> j \<and> j < length segs" using Cons.prems by simp
  show ?case
    using Cons.IH [OF rest] by (simp add: transition_step_exact [OF r])
qed

lemma detect_transitions_exact:
  "detect_emotional_transitions data th =
     Inr (map (transition_at (prosody_segments data))
            (filter (emits_at th (prosody_segments data))
               [1 ..< length (prosody_segments data)]))"
proof -
  have "\<forall>i \<in> set [1 ..< length (prosody_segments data)].
          1 \<le> i \<and> i < length (prosody_segments data)" by simp
  from transition_fold_exact [OF this, of th "[]"] show ?thesis
    by (simp add: detect_transitions_eq)
qed

lemma same_label_when_changed:
  assumes "changes_at segs i"
    and "from_emotion (transition_at segs i) = to_emotion (transition_at segs i)"
  shows "absent_beside_unknown segs i"
  using assms
  by (auto simp: changes_at_def transition_at_def absent_beside_unknown_def py_get_def
      split: option.splits)

text \<open>
  C4, as amended. With fewer than two prosody segments \<open>detect_emotional_transitions\<close>
  returns the empty list. For every document and threshold it returns the transitions of
  exactly the indices \<open>i\<close> at which the dominant-emotion names of segments \<open>i - 1\<close> and
  \<open>i\<close>, as found in the document, differ and the score of segment \<open>i\<close> reaches the
  threshold, in index order; an absent name differs from every name that is present. So
  no transition is emitted where both names are absent or both are present and equal, and
  an emitted transition has equal \<open>from_emotion\<close> and \<open>to_emotion\<close> only where one of
  the two names is absent and the other is the literal \<open>Unknown\<close>.
\<close>

theorem detect_transitions_found_names:
  "(length (prosody_segments data) < 2 \<longrightarrow> detect_emotional_transitions data th = Inr []) \<and>
   (\<exists>ts. detect_emotional_transitions data th = Inr ts \<and>
      ts = map (transition_at (prosody_segments data))
             (filter (emits_at th (prosody_segments data))
                [1 ..< length (prosody_segments data)]) \<and>
      (\<forall>t \<in> set ts. \<exists>i. 1 \<le> i \<and> i < length (prosody_segments data) \<and>
          t = transition_at (prosody_segments data) i \<and>
          em_name (dominant_of (prosody_segments data ! (i - 1))) \<noteq>
            em_name (dominant_of (prosody_segments data ! i)) \<and>
          (from_emotion t = to_emotion t \<longrightarrow> absent_beside_unknown (prosody_segments data) i)))"
proof (intro conjI impI)
  assume "length (prosody_segments data) < 2"
  then have e: "[1 ..< length (prosody_segments data)] = []" by simp
  show "detect_emotional_transitions data th = Inr []"
    unfolding detect_transitions_eq e by simp
next
  let ?segs = "prosody_segments data"
  let ?ts = "map (transition_at ?segs) (filter (emits_at th ?segs) [1 ..< length ?segs])"
  have "\<exists>i. 1 \<le> i \<and> i < length ?segs \<and> t = transition_at ?segs i \<and>
          em_name (dominant_of (?segs ! (i - 1))) \<noteq> em_name (dominant_of (?segs ! i)) \<and>
          (from_emotion t = to_emotion t \<longrightarrow> absent_beside_unknown ?segs i)"
    if mem: "t \<in> set ?ts" for t
  proof -
    from mem obtain i where i: "1 \<le> i" "i < length ?segs" "emits_at th ?segs i"
        "t = transition_at ?segs i" by auto
    then have c: "changes_at ?segs i" by (simp add: emits_at_def)
    then have "em_name (dominant_of (?segs ! (i - 1))) \<noteq> em_name (dominant_of (?segs ! i))"
      by (simp add: changes_at_def)
    moreover have "from_emotion t = to_emotion t \<longrightarrow> absent_beside_unknown ?segs i"
      using same_label_when_changed [OF c] i(4) by simp
    ultimately show ?thesis using i by blast
  qed
  then show "\<exists>ts. detect_emotional_transitions data th = Inr ts \<and> ts = ?ts \<and>
      (\<forall>t \<in> set ts. \<exists>i. 1 \<le> i \<and> i < length ?segs \<and> t = transition_at ?segs i \<and>
          em_name (dominant_of (?segs ! (i - 1))) \<noteq> em_name (dominant_of (?segs ! i)) \<and>
          (from_emotion t = to_emotion t \<longrightarrow> absent_beside_unknown ?segs i))"
    using detect_transitions_exact [of data th] by blast
qed

theorem detect_transitions_found_names_witness:
  "length (prosody_segments (one_prosody [mk_segment 0 ''Joy'' (1 / 2)])) < 2 \<and>
   detect_emotional_transitions (one_prosody [mk_segment 0 ''Joy'' (1 / 2)]) (2 / 10) = Inr [] \<and>
   filter (emits_at (2 / 10) (prosody_segments sample_data))
     [1 ..< length (prosody_segments sample_data)] = [2] \<and>
   detect_emotional_transitions sample_data (2 / 10) =
     Inr [\<lparr>tr_time = 2, from_emotion = lit ''Joy'', to_emotion = lit ''Sadness'',
           intensity = 4 / 10\<rparr>]"
proof -
  have a: "length (prosody_segments (one_prosody [mk_segment 0 ''Joy'' (1 / 2)])) < 2"
    by code_simp
  have b: "filter (emits_at (2 / 10) (prosody_segments sample_data))
     [1 ..< length (prosody_segments sample_data)] = [2]" by code_simp
  have c: "transition_at (prosody_segments sample_data) 2 =
     \<lparr>tr_time = 2, from_emotion = lit ''Joy'', to_emotion = lit ''Sadness'',
      intensity = 4 / 10\<rparr>" by code_simp
  have d: "detect_emotional_transitions (one_prosody [mk_segment 0 ''Joy'' (1 / 2)]) (2 / 10) = Inr []"
    using detect_transitions_found_names [of "one_prosody [mk_segment 0 ''Joy'' (1 / 2)]" "2 / 10"] a
    by blast
  have "detect_emotional_transitions sample_data (2 / 10) =
     Inr (map (transition_at (prosody_segments sample_data))
            (filter (emits_at (2 / 10) (prosody_segments sample_data))
               [1 ..< length (prosody_segments sample_data)]))"
    using detect_transitions_found_names [of sample_data "2 / 10"] by blast
  then have e: "detect_emotional_transitions sample_data (2 / 10) =
     Inr [\<lparr>tr_time = 2, from_emotion = lit ''Joy'', to_emotion = lit ''Sadness'',
           intensity = 4 / 10\<rparr>]"
    unfolding b by (simp add: c)
  show ?thesis using a b d e by blast
qed

text \<open>
  C4 as stated fails once an absent name is read as its default: a segment without a name
  and the next one named \<open>Unknown\<close> have the same dominant-emotion name \<open>Unknown\<close>, and
  a transition from \<open>Unknown\<close> to \<open>Unknown\<close> is emitted between them.
\<close>

theorem detect_transitions_names_counterexample:
  "py_get (em_name (dominant_of bare_segment)) (lit ''Unknown'') =
     py_get (em_name (dominant_of (mk_segment 1 ''Unknown'' (1 / 2)))) (lit ''Unknown'') \<and>
   detect_emotional_transitions
     (one_prosody [bare_segment, mk_segment 1 ''Unknown'' (1 / 2)]) (2 / 10) =
   Inr [\<lparr>tr_time = 1, from_emotion = lit ''Unknown'', to_emotion = lit ''Unknown'',
         intensity = 1 / 2\<rparr>]"
  by code_simp

section \<open>Summary composition\<close>

lemma mood_summary_eq:
  "mood_summary data =
     Inr (case language_segments data of [] \<Rightarrow> empty_summary | seg # _ \<Rightarrow> mood_of seg)"
proof (cases "segments (py_get (language data) empty_channel)")
  case None
  then show ?thesis
    by (simp add: mood_summary_def language_segments_def truthy_def py_get_def Let_def)
next
  case (Some segs)
  then show ?thesis
    by (cases segs)
      (simp_all add: mood_summary_def language_segments_def truthy_def py_get_def Let_def
        py_item_def py_index_first mood_of_def empty_summary_def raw_score_def)
qed

lemma strategy_names_distinct:
  "lit ''peaks'' \<noteq> lit ''transitions''" "lit ''peaks'' \<noteq> lit ''full_summary''"
  "lit ''transitions'' \<noteq> lit ''full_summary''"
  by (simp_all add: lit_def)

lemma fold_arc_add:
  "fold arc_add xs acc = acc @ dedup_first (filter (\<lambda>x. x \<notin> set acc) xs)"
proof (induction xs arbitrary: acc)
  case Nil
  then show ?case by simp
next
  case (Cons x xs)
  show ?case
  proof (cases "x \<in> set acc")
    case True
    then show ?thesis using Cons.IH [of acc] by (simp add: arc_add_def)
  next
    case False
    have "filter (\<lambda>y. y \<notin> set (acc @ [x])) xs = filter (\<lambda>y. y \<noteq> x) (filter (\<lambda>y. y \<notin> set acc) xs)"
      by (induction xs) auto
    then show ?thesis using False Cons.IH [of "acc @ [x]"] by (simp add: arc_add_def)
  qed
qed

lemma arc_parts_eq:
  "fold (\<lambda>t. arc_add (to_emotion t)) ts (arc_add e []) = dedup_first (e # map to_emotion ts)"
proof -
  have a: "fold (\<lambda>t. arc_add (to_emotion t)) ts [e] = fold arc_add (map to_emotion ts) [e]"
    by (simp add: fold_map comp_def)
  have b: "fold arc_add (map to_emotion ts) [e] =
          [e] @ dedup_first (filter (\<lambda>x. x \<notin> set [e]) (map to_emotion ts))"
    by (rule fold_arc_add)
  have c: "arc_add e [] = [e]" by (simp add: arc_add_def)
  show ?thesis unfolding c a b by simp
qed

lemma create_full_summary:
  assumes "detect_emotional_transitions data (25 / 100) = Inr ts"
    and "mood_summary data = Inr m"
  shows "create_emotional_summary data (lit ''full_summary'') kw =
     Inr (case ts of
            [] \<Rightarrow> m\<lparr>key_moments :=
                       Some (map key_moment (take 2 (extract_emotional_peaks data 3 (35 / 100))))\<rparr>
          | t0 # _ \<Rightarrow> m\<lparr>key_moments :=
                       Some (map key_moment (take 2 (extract_emotional_peaks data 3 (35 / 100)))),
                     emotional_arc :=
                       Some (join arrow (dedup_first (from_emotion t0 # map to_emotion (take 3 ts))))\<rparr>)"
proof (cases ts)
  case Nil
  then show ?thesis using assms
    by (simp add: create_emotional_summary_def strategy_names_distinct
        strategy_names_distinct [symmetric] Let_def)
next
  case (Cons t0 rest)
  have idx: "py_index ts 0 = Inr t0" using Cons py_index_first [of ts] by simp
  have pos: "0 < length ts" using Cons by simp
  have arc: "fold (\<lambda>t. arc_add (to_emotion t)) (take 3 ts) (arc_add (from_emotion t0) []) =
               dedup_first (from_emotion t0 # map to_emotion (take 3 ts))"
    by (rule arc_parts_eq)
  have "create_emotional_summary data (lit ''full_summary'') kw =
     Inr (m\<lparr>key_moments :=
                Some (map key_moment (take 2 (extract_emotional_peaks data 3 (35 / 100)))),
              emotional_arc :=
                Some (join arrow (dedup_first (from_emotion t0 # map to_emotion (take 3 ts))))\<rparr>)"
    using assms idx pos
    by (simp add: create_emotional_summary_def strategy_names_distinct
        strategy_names_distinct [symmetric] Let_def arc)
  then show ?thesis by (simp add: Cons)
qed

lemma mood_summary_arc:
  "emotional_arc (case language_segments data of [] \<Rightarrow> empty_summary | seg # _ \<Rightarrow> mood_of seg) = None"
  by (simp add: empty_summary_def mood_of_def split: list.split)

text \<open>
  C7. Under the strategy \<open>full_summary\<close> the function returns a summary; when
  \<open>detect_emotional_transitions\<close> with threshold \<open>0.25\<close> finds no transition, the key
  \<open>emotional_arc\<close> is absent, and otherwise \<open>emotional_arc\<close> is the join, with the
  separator \<open>" \<rightarrow> "\<close>, of the first transition's \<open>from_emotion\<close> followed by the
  \<open>to_emotion\<close>s of the first three transitions, in order and without repetitions, each
  name at its first occurrence.
\<close>

theorem full_summary_arc:
  "\<exists>s ts. create_emotional_summary data (lit ''full_summary'') kw = Inr s \<and>
     detect_emotional_transitions data (25 / 100) = Inr ts \<and>
     emotional_arc s =
       (case ts of
          [] \<Rightarrow> None
        | t0 # _ \<Rightarrow>
            Some (join arrow (dedup_first (from_emotion t0 # map to_emotion (take 3 ts)))))"
proof -
  obtain ts where ts: "detect_emotional_transitions data (25 / 100) = Inr ts"
    using detect_transitions_total by blast
  let ?m = "case language_segments data of [] \<Rightarrow> empty_summary | seg # _ \<Rightarrow> mood_of seg"
  have m: "mood_summary data = Inr ?m" by (rule mood_summary_eq)
  note full = create_full_summary [OF ts m, of kw]
  show ?thesis
  proof (cases ts)
    case Nil
    then show ?thesis using full ts mood_summary_arc [of data] by simp
  next
    case (Cons t0 rest)
    then show ?thesis using full ts by simp
  qed
qed

theorem full_summary_arc_witness:
  "map (\<lambda>t. (from_emotion t, to_emotion t)) (projr (detect_emotional_transitions arc_data (25 / 100))) =
     [(lit ''Joy'', lit ''Sadness''), (lit ''Sadness'', lit ''Joy''),
      (lit ''Joy'', lit ''Sadness''), (lit ''Sadness'', lit ''Anger'')] \<and>
   (\<exists>s. create_emotional_summary arc_data (lit ''full_summary'') no_keywords = Inr s \<and>
      emotional_arc s = Some (lit ''Joy'' @ arrow @ lit ''Sadness''))"
proof -
  have d: "detect_emotional_transitions arc_data (25 / 100) =
     Inr [\<lparr>tr_time = 1, from_emotion = lit ''Joy'', to_emotion = lit ''Sadness'', intensity = 1 / 2\<rparr>,
          \<lparr>tr_time = 2, from_emotion = lit ''Sadness'', to_emotion = lit ''Joy'', intensity = 1 / 2\<rparr>,
          \<lparr>tr_time = 3, from_emotion = lit ''Joy'', to_emotion = lit ''Sadness'', intensity = 1 / 2\<rparr>,
          \<lparr>tr_time = 4, from_emotion = lit ''Sadness'', to_emotion = lit ''Anger'', intensity = 1 / 2\<rparr>]"
    by code_simp
  have j: "lit ''Joy'' \<noteq> lit ''Sadness''" by (simp add: lit_def)
  show ?thesis
    using full_summary_arc [of arc_data no_keywords] j unfolding d by simp
qed

text \<open>
  C8. For a strategy other than \<open>peaks\<close>, \<open>transitions\<close> and \<open>full_summary\<close>,
  \<open>create_emotional_summary\<close> raises nothing and returns the summary that has the keys
  \<open>overall_mood\<close> and \<open>mood_confidence\<close> alone when the language channel has a
  segment, and the empty summary otherwise.
\<close>

theorem unknown_strategy_mood_only:
  assumes "strategy \<notin> {lit ''peaks'', lit ''transitions'', lit ''full_summary''}"
  shows "create_emotional_summary data strategy kw =
           Inr (case language_segments data of
                  [] \<Rightarrow> empty_summary
                | seg # _ \<Rightarrow>
                    \<lparr>overall_mood = Some (py_get (em_name (dominant_of seg)) (lit ''Unknown'')),
                     mood_confidence = Some (py_round (raw_score seg) 2),
                     emotional_peaks = None, emotional_transitions = None,
                     key_moments = None, emotional_arc = None\<rparr>)"
  using assms
  by (simp add: create_emotional_summary_def mood_summary_eq mood_of_def split: list.split)

theorem unknown_strategy_mood_only_witness:
  "lit ''everything'' \<notin> {lit ''peaks'', lit ''transitions'', lit ''full_summary''} \<and>
   create_emotional_summary sample_data (lit ''everything'') no_keywords =
     Inr \<lparr>overall_mood = Some (lit ''Calm''), mood_confidence = Some (78 / 100),
          emotional_peaks = None, emotional_transitions = None,
          key_moments = None, emotional_arc = None\<rparr> \<and>
   create_emotional_summary arc_data (lit ''Peaks'') no_keywords = Inr empty_summary"
proof -
  have a: "lit ''everything'' \<notin> {lit ''peaks'', lit ''transitions'', lit ''full_summary''}"
    by (simp add: lit_def)
  have b: "lit ''Peaks'' \<notin> {lit ''peaks'', lit ''transitions'', lit ''full_summary''}"
    by (simp add: lit_def)
  have c: "language_segments sample_data = [mk_segment 0 ''Calm'' (777 / 1000)]" by code_simp
  have d: "py_get (em_name (dominant_of (mk_segment 0 ''Calm'' (777 / 1000)))) (lit ''Unknown'') = lit ''Calm''"
    by code_simp
  have e: "py_round (raw_score (mk_segment 0 ''Calm'' (777 / 1000))) 2 = 78 / 100" by code_simp
  have f: "language_segments arc_data = []" by code_simp
  show ?thesis
    using unknown_strategy_mood_only [OF a, of sample_data no_keywords]
      unknown_strategy_mood_only [OF b, of arc_data no_keywords] a
    by (simp add: c d e f)
qed

lemma no_peaks_below_threshold:
  assumes "\<forall>seg \<in> set (prosody_segments data) \<union> set (burst_segments data). raw_score seg < t"
  shows "extract_emotional_peaks data n t = []"
proof -
  have quiet: "\<not> significant t seg"
    if mem: "seg \<in> set (prosody_segments data) \<union> set (burst_segments data)" for seg
  proof -
    from assms mem have "raw_score seg < t" by blast
    then show ?thesis by (simp add: significant_def raw_score_def)
  qed
  have "filter (significant t) (prosody_segments data) = []"
    using quiet by (simp add: filter_empty_conv)
  moreover have "filter (significant t) (burst_segments data) = []"
    using quiet by (simp add: filter_empty_conv)
  ultimately have "collected_peaks data t = []" by (simp add: collected_peaks_eq)
  then show ?thesis by (simp add: extract_emotional_peaks_def slice_to_def)
qed

lemma join_snoc_suffix: "suffix x (join sep (xs @ [x]))"
proof (induction xs rule: join.induct [of _ sep])
  case 1
  then show ?case by simp
next
  case (2 y)
  then show ?case by (simp add: suffix_def)
next
  case (3 y z zs)
  then show ?case by (auto simp: suffix_def)
qed

lemma format_lines_key_moments:
  assumes "key_moments s = Some []"
  shows "\<exists>front. format_lines s = front @ [lit ''Key moments: '']"
  using assms by (simp add: format_lines_def Let_def split: option.split)

text \<open>
  C10. When no prosody or vocal-burst segment has a score of \<open>0.35\<close> or more, the
  summary of the strategy \<open>full_summary\<close> still has the key \<open>key_moments\<close>, with the
  empty list, and \<open>format_for_prompt\<close> ends its output with the line \<open>Key moments: \<close>
  and nothing after it; a summary whose only key is \<open>emotional_peaks\<close>, with the empty
  list, is formatted to no line at all.
\<close>

theorem empty_key_moments_line:
  assumes "\<forall>seg \<in> set (prosody_segments data) \<union> set (burst_segments data).
             raw_score seg < 35 / 100"
  shows "\<exists>s. create_emotional_summary data (lit ''full_summary'') kw = Inr s \<and>
           key_moments s = Some [] \<and>
           last (format_lines s) = lit ''Key moments: '' \<and>
           lit ''Key moments: '' \<in> set (format_lines s) \<and>
           suffix (lit ''Key moments: '') (format_for_prompt s) \<and>
           format_lines (empty_summary\<lparr>emotional_peaks := Some []\<rparr>) = [] \<and>
           format_for_prompt (empty_summary\<lparr>emotional_peaks := Some []\<rparr>) = []"
proof -
  obtain ts where ts: "detect_emotional_transitions data (25 / 100) = Inr ts"
    using detect_transitions_total by blast
  have m: "mood_summary data =
             Inr (case language_segments data of [] \<Rightarrow> empty_summary | seg # _ \<Rightarrow> mood_of seg)"
    by (rule mood_summary_eq)
  have np: "extract_emotional_peaks data 3 (35 / 100) = []"
    using assms by (rule no_peaks_below_threshold)
  obtain s where s: "create_emotional_summary data (lit ''full_summary'') kw = Inr s"
      "key_moments s = Some []"
    using create_full_summary [OF ts m, of kw] np by (cases ts) simp_all
  obtain front where fr: "format_lines s = front @ [lit ''Key moments: '']"
    using format_lines_key_moments [OF s(2)] by blast
  have "suffix (lit ''Key moments: '') (format_for_prompt s)"
    unfolding format_for_prompt_def fr by (rule join_snoc_suffix)
  moreover have "format_lines (empty_summary\<lparr>emotional_peaks := Some []\<rparr>) = []"
    by (simp add: format_lines_def empty_summary_def)
  ultimately show ?thesis using s fr by (auto simp: format_for_prompt_def)
qed

theorem empty_key_moments_line_witness:
  "list_all (\<lambda>seg. raw_score seg < 35 / 100)
     (prosody_segments quiet_data @ burst_segments quiet_data) \<and>
   create_emotional_summary quiet_data (lit ''full_summary'') no_keywords =
     Inr \<lparr>overall_mood = None, mood_confidence = None, emotional_peaks = None,
          emotional_transitions = None, key_moments = Some [],
          emotional_arc = Some (lit ''Calm'' @ arrow @ lit ''Boredom'')\<rparr> \<and>
   format_for_prompt \<lparr>overall_mood = None, mood_confidence = None, emotional_peaks = None,
          emotional_transitions = None, key_moments = Some [],
          emotional_arc = Some (lit ''Calm'' @ arrow @ lit ''Boredom'')\<rparr> =
     lit ''Emotional journey: Calm'' @ arrow @ lit ''Boredom'' @ [10] @ lit ''Key moments: '' \<and>
   (\<exists>s. create_emotional_summary quiet_data (lit ''full_summary'') no_keywords = Inr s \<and>
       last (format_lines s) = lit ''Key moments: '')"
proof -
  have a: "list_all (\<lambda>seg. raw_score seg < 35 / 100)
     (prosody_segments quiet_data @ burst_segments quiet_data)" by code_simp
  have b: "create_emotional_summary quiet_data (lit ''full_summary'') no_keywords =
     Inr \<lparr>overall_mood = None, mood_confidence = None, emotional_peaks = None,
          emotional_transitions = None, key_moments = Some [],
          emotional_arc = Some (lit ''Calm'' @ arrow @ lit ''Boredom'')\<rparr>" by code_simp
  have c: "format_for_prompt \<lparr>overall_mood = None, mood_confidence = None, emotional_peaks = None,
          emotional_transitions = None, key_moments = Some [],
          emotional_arc = Some (lit ''Calm'' @ arrow @ lit ''Boredom'')\<rparr> =
     lit ''Emotional journey: Calm'' @ arrow @ lit ''Boredom'' @ [10] @ lit ''Key moments: ''"
    by code_simp
  have h: "\<forall>seg \<in> set (prosody_segments quiet_data) \<union> set (burst_segments quiet_data).
             raw_score seg < 35 / 100"
    using a by (simp add: list_all_iff)
  have "\<exists>s. create_emotional_summary quiet_data (lit ''full_summary'') no_keywords = Inr s \<and>
           last (format_lines s) = lit ''Key moments: ''"
    using empty_key_moments_line [OF h, of no_keywords] by blast
  then show ?thesis using a b c by blast
qed

section \<open>Candidate windows\<close>

lemma merge_step_well_formed:
  assumes "list_all well_formed merged" "well_formed c"
  shows "\<exists>ys. merge_step merged c = Inr ys \<and> list_all well_formed ys"
proof -
  obtain s e r where c: "c = (s, e, r)" by (cases c)
  show ?thesis
  proof (cases merged rule: rev_cases)
    case Nil
    then show ?thesis using assms by (simp add: merge_step_Nil)
  next
    case (snoc ms l)
    then show ?thesis using assms c
      by (auto simp: merge_step_snoc well_formed_def)
  qed
qed

lemma merge_fold_well_formed:
  assumes "list_all well_formed acc" "list_all well_formed cs"
  shows "\<exists>ys. fold_err merge_step cs acc = Inr ys \<and> list_all well_formed ys"
  using assms
proof (induction cs arbitrary: acc)
  case Nil
  then show ?case by simp
next
  case (Cons c cs)
  then obtain ys where ys: "merge_step acc c = Inr ys" "list_all well_formed ys"
    using merge_step_well_formed [of acc c] by auto
  then show ?case using Cons.IH [of ys] Cons.prems by simp
qed

lemma identify_eq:
  "identify_punchline_candidates data tw =
     bnd (merge_windows (sort_key fst
            (map (peak_candidate tw) (extract_emotional_peaks data 10 (25 / 100)) @
             map burst_candidate (burst_segments data))))
       (\<lambda>merged. Inr (take 7 merged))"
  by (simp add: identify_punchline_candidates_def burst_segments_def Let_def)

lemma identify_total: "\<exists>cs. identify_punchline_candidates data tw = Inr cs"
proof -
  obtain ys where "merge_windows (sort_key fst
            (map (peak_candidate tw) (extract_emotional_peaks data 10 (25 / 100)) @
             map burst_candidate (burst_segments data))) = Inr ys"
    using merge_fold_apart [of "[]"] by (auto simp: merge_windows_def)
  then show ?thesis by (simp add: identify_eq)
qed

lemma extracted_peak_time:
  assumes "p \<in> set (extract_emotional_peaks data n t)"
  shows "\<exists>seg \<in> set (prosody_segments data) \<union> set (burst_segments data). p_time p = begin_of seg"
proof -
  have "p \<in> set (collected_peaks data t)" using assms set_extract_peaks by blast
  then obtain seg where
    "seg \<in> set (prosody_segments data) \<and> p = prosody_peak seg \<or>
     seg \<in> set (burst_segments data) \<and> p = burst_peak seg"
    using collected_peak_source by blast
  then show ?thesis by (auto simp: prosody_peak_def burst_peak_def Let_def)
qed

text \<open>
  C6. When every prosody and vocal-burst segment begins at a time \<open>\<ge> 0\<close> and
  \<open>time_window \<ge> 0\<close>, \<open>identify_punchline_candidates\<close> returns a list of windows and
  each of them has \<open>start \<ge> 0\<close> and \<open>end \<ge> start\<close>.
\<close>

theorem candidates_well_formed:
  assumes "\<forall>seg \<in> set (prosody_segments data) \<union> set (burst_segments data). 0 \<le> begin_of seg"
    and "0 \<le> time_window"
  shows "\<exists>cs. identify_punchline_candidates data time_window = Inr cs \<and>
              (\<forall>c \<in> set cs. 0 \<le> fst c \<and> fst c \<le> fst (snd c))"
proof -
  let ?peaks = "extract_emotional_peaks data 10 (25 / 100)"
  let ?cands = "map (peak_candidate time_window) ?peaks @ map burst_candidate (burst_segments data)"
  have pk: "well_formed (peak_candidate time_window p)" if mem: "p \<in> set ?peaks" for p
  proof -
    obtain seg where "seg \<in> set (prosody_segments data) \<union> set (burst_segments data)"
        "p_time p = begin_of seg"
      using extracted_peak_time [OF mem] by blast
    then have "0 \<le> p_time p" using assms(1) by auto
    then show ?thesis using assms(2) by (simp add: well_formed_def peak_candidate_def)
  qed
  have bu: "well_formed (burst_candidate seg)" if "seg \<in> set (burst_segments data)" for seg
  proof -
    have "0 \<le> begin_of seg" using that assms(1) by auto
    then show ?thesis by (simp add: well_formed_def burst_candidate_def Let_def)
  qed
  have "\<forall>c \<in> set ?cands. well_formed c" using pk bu by auto
  then have "list_all well_formed (sort_key fst ?cands)" by (simp add: list_all_iff)
  then obtain ys where ys: "merge_windows (sort_key fst ?cands) = Inr ys" "list_all well_formed ys"
    using merge_fold_well_formed [of "[]" "sort_key fst ?cands"] by (auto simp: merge_windows_def)
  have "identify_punchline_candidates data time_window = Inr (take 7 ys)"
    using ys(1) by (simp add: identify_eq)
  moreover have "\<forall>c \<in> set (take 7 ys). well_formed c"
    using ys(2) by (auto simp: list_all_iff dest: in_set_takeD)
  ultimately show ?thesis by (auto simp: well_formed_def)
qed

theorem candidates_well_formed_witness:
  "list_all (\<lambda>seg. 0 \<le> begin_of seg) (prosody_segments sample_data @ burst_segments sample_data) \<and>
   (0::rat) \<le> 2 \<and>
   identify_punchline_candidates sample_data 2 =
     Inr [(0, 4, lit ''High humor/joy moment + High humor/joy moment + Emotional/touching moment''),
          (8, 12, lit ''Strong VocalBurst:Laugh moment + Non-verbal expression'')] \<and>
   (\<exists>cs. identify_punchline_candidates sample_data 2 = Inr cs \<and>
      list_all (\<lambda>c. 0 \<le> fst c \<and> fst c \<le> fst (snd c)) cs)"
proof -
  have a: "list_all (\<lambda>seg. 0 \<le> begin_of seg)
             (prosody_segments sample_data @ burst_segments sample_data)"
    by code_simp
  have b: "identify_punchline_candidates sample_data 2 =
     Inr [(0, 4, lit ''High humor/joy moment + High humor/joy moment + Emotional/touching moment''),
          (8, 12, lit ''Strong VocalBurst:Laugh moment + Non-verbal expression'')]"
    by code_simp
  have h: "\<forall>seg \<in> set (prosody_segments sample_data) \<union> set (burst_segments sample_data).
             0 \<le> begin_of seg"
    using a by (simp add: list_all_iff)
  have "\<exists>cs. identify_punchline_candidates sample_data 2 = Inr cs \<and>
              (\<forall>c \<in> set cs. 0 \<le> fst c \<and> fst c \<le> fst (snd c))"
    using candidates_well_formed [OF h, of 2] by simp
  then show ?thesis using a b by (simp add: list_all_iff)
qed




section \<open>No access raises\<close>

lemma create_total: "\<exists>s. create_emotional_summary data strategy kw = Inr s"
proof -
  obtain m where m: "mood_summary data = Inr m" using mood_summary_eq by blast
  obtain ts where ts: "detect_emotional_transitions data (py_get (kw_change_threshold kw) (2 / 10)) = Inr ts"
    using detect_transitions_total by blast
  obtain us where us: "detect_emotional_transitions data (25 / 100) = Inr us"
    using detect_transitions_total by blast
  consider "strategy = lit ''peaks''" | "strategy = lit ''transitions''"
    | "strategy = lit ''full_summary''"
    | "strategy \<notin> {lit ''peaks'', lit ''transitions'', lit ''full_summary''}" by blast
  then show ?thesis
  proof cases
    case 1
    then show ?thesis using m by (simp add: create_emotional_summary_def Let_def)
  next
    case 2
    then show ?thesis using m ts
      by (simp add: create_emotional_summary_def Let_def strategy_names_distinct [symmetric])
  next
    case 3
    then show ?thesis using create_full_summary [OF us m, of kw] by simp
  next
    case 4
    then show ?thesis using m by (simp add: create_emotional_summary_def)
  qed
qed

lemma no_data_segments:
  "prosody_segments no_data = []" "burst_segments no_data = []" "language_segments no_data = []"
  by (simp_all add: prosody_segments_def burst_segments_def language_segments_def no_data_def
      py_get_def empty_channel_def)

lemma extract_no_data: "extract_emotional_peaks no_data top_n t = []"
  by (simp add: extract_emotional_peaks_def collected_peaks_eq no_data_segments slice_to_def)

lemma detect_no_data: "detect_emotional_transitions no_data ct = Inr []"
  by (simp add: detect_transitions_eq no_data_segments)

lemma identify_no_data: "identify_punchline_candidates no_data tw = Inr []"
  by (simp add: identify_eq extract_no_data no_data_segments merge_windows_def)

lemma create_no_data:
  "create_emotional_summary no_data (lit ''full_summary'') kw =
     Inr (empty_summary\<lparr>key_moments := Some []\<rparr>)"
proof -
  have m: "mood_summary no_data = Inr empty_summary"
    by (simp add: mood_summary_eq no_data_segments)
  show ?thesis using create_full_summary [OF detect_no_data m, of kw]
    by (simp add: extract_no_data)
qed

text \<open>
  C2. On every document of the input shape, with any key absent,
  \<open>detect_emotional_transitions\<close>, \<open>create_emotional_summary\<close> and
  \<open>identify_punchline_candidates\<close> return a value: no index or key access in them
  raises. \<open>extract_emotional_peaks\<close> has no access that can raise, so it is a plain
  function here. An absent channel counts as the empty sequence, an absent time or score
  as \<open>0\<close> and an absent name as \<open>Unknown\<close>, as the evaluations on a document without
  channels and on segments without fields show.
\<close>

theorem total_on_input_shape:
  "(\<exists>ts. detect_emotional_transitions data change_threshold = Inr ts) \<and>
   (\<exists>s. create_emotional_summary data strategy kw = Inr s) \<and>
   (\<exists>cs. identify_punchline_candidates data time_window = Inr cs) \<and>
   extract_emotional_peaks no_data top_n threshold = [] \<and>
   detect_emotional_transitions no_data change_threshold = Inr [] \<and>
   create_emotional_summary no_data (lit ''full_summary'') kw =
     Inr (empty_summary\<lparr>key_moments := Some []\<rparr>) \<and>
   identify_punchline_candidates no_data time_window = Inr [] \<and>
   extract_emotional_peaks (one_prosody [bare_segment]) 5 0 =
     [\<lparr>p_time = 0, p_emotion = lit ''Unknown'', p_score = 0, p_text_snippet = lit ''...''\<rparr>] \<and>
   burst_peak bare_segment =
     \<lparr>p_time = 0, p_emotion = lit ''VocalBurst:Unknown'', p_score = 0,
      p_text_snippet = lit ''[Non-verbal expression]''\<rparr> \<and>
   detect_emotional_transitions
       (one_prosody [bare_segment, mk_segment 1 ''Joy'' (1 / 2)]) (2 / 10) =
     Inr [\<lparr>tr_time = 1, from_emotion = lit ''Unknown'', to_emotion = lit ''Joy'',
           intensity = 1 / 2\<rparr>] \<and>
   create_emotional_summary
       \<lparr>speech_prosody = None, vocal_burst = None,
        language = Some \<lparr>segments = Some [bare_segment]\<rparr>\<rparr> (lit ''mood'') no_keywords =
     Inr \<lparr>overall_mood = Some (lit ''Unknown''), mood_confidence = Some 0,
          emotional_peaks = None, emotional_transitions = None, key_moments = None,
          emotional_arc = None\<rparr> \<and>
   identify_punchline_candidates
       \<lparr>speech_prosody = None, vocal_burst = Some \<lparr>segments = Some [bare_segment]\<rparr>,
        language = None\<rparr> 2 =
     Inr [(0, 1, lit ''Non-verbal expression'')]"
proof -
  have a: "\<exists>ts. detect_emotional_transitions data change_threshold = Inr ts"
    using detect_transitions_total by blast
  have b: "\<exists>s. create_emotional_summary data strategy kw = Inr s" by (rule create_total)
  have c: "\<exists>cs. identify_punchline_candidates data time_window = Inr cs" by (rule identify_total)
  have d: "extract_emotional_peaks (one_prosody [bare_segment]) 5 0 =
     [\<lparr>p_time = 0, p_emotion = lit ''Unknown'', p_score = 0, p_text_snippet = lit ''...''\<rparr>]"
    by code_simp
  have e: "burst_peak bare_segment =
     \<lparr>p_time = 0, p_emotion = lit ''VocalBurst:Unknown'', p_score = 0,
      p_text_snippet = lit ''[Non-verbal expression]''\<rparr>"
    by code_simp
  have f: "detect_emotional_transitions
       (one_prosody [bare_segment, mk_segment 1 ''Joy'' (1 / 2)]) (2 / 10) =
     Inr [\<lparr>tr_time = 1, from_emotion = lit ''Unknown'', to_emotion = lit ''Joy'',
           intensity = 1 / 2\<rparr>]"
    by code_simp
  have g: "create_emotional_summary
       \<lparr>speech_prosody = None, vocal_burst = None,
        language = Some \<lparr>segments = Some [bare_segment]\<rparr>\<rparr> (lit ''mood'') no_keywords =
     Inr \<lparr>overall_mood = Some (lit ''Unknown''), mood_confidence = Some 0,
          emotional_peaks = None, emotional_transitions = None, key_moments = None,
          emotional_arc = None\<rparr>"
    by code_simp
  have h: "identify_punchline_candidates
       \<lparr>speech_prosody = None, vocal_burst = Some \<lparr>segments = Some [bare_segment]\<rparr>,
        language = None\<rparr> 2 =
     Inr [(0, 1, lit ''Non-verbal expression'')]"
    by code_simp
  show ?thesis
    using a b c d e f g h extract_no_data detect_no_data create_no_data identify_no_data
    by blast
qed

end
